theory Spec2Isabelle
  imports Main "HOL-Library.AList"
begin

section \<open>The task registry of \<open>celery/registry.py\<close>\<close>

text \<open>
  The module keeps a dictionary from task names to task handlers. This theory embeds
  its functions: \<open>name_to_clsname\<close> and the methods of \<open>TaskRegistry\<close>
  (\<open>register\<close>, \<open>unregister\<close>, \<open>get_all\<close>, \<open>filter_types\<close>,
  \<open>get_all_regular\<close>, \<open>get_all_periodic\<close>, \<open>get_task\<close>).
  \<open>autodiscover\<close> only calls \<open>celery.discovery\<close>, which is another module, and is
  left out.
\<close>

subsection \<open>Names: \<open>name_to_clsname\<close>\<close>

text \<open>
  \<^verbatim>\<open>RE_ILLEGAL_CLASS_CHARS = re.compile(r"[\W_]")\<close>

  Without flags \<open>\W\<close> is every character outside \<open>[a-zA-Z0-9_]\<close>, so the class
  matches one character that is not an ASCII letter or digit. A Python 2 \<open>str\<close> is a
  byte string, as \<open>string\<close> is here.
\<close>

definition is_digit :: "char \<Rightarrow> bool" where
  "is_digit c = (48 \<le> (of_char c :: nat) \<and> (of_char c :: nat) \<le> 57)"

definition is_upper :: "char \<Rightarrow> bool" where
  "is_upper c = (65 \<le> (of_char c :: nat) \<and> (of_char c :: nat) \<le> 90)"

definition is_lower :: "char \<Rightarrow> bool" where
  "is_lower c = (97 \<le> (of_char c :: nat) \<and> (of_char c :: nat) \<le> 122)"

definition RE_ILLEGAL_CLASS_CHARS :: "char \<Rightarrow> bool" where
  "RE_ILLEGAL_CLASS_CHARS c = (\<not> (is_digit c \<or> is_upper c \<or> is_lower c))"

text \<open>
  \<open>pattern.split(s)\<close> for a pattern that matches single characters: \<open>s\<close> is cut at
  every matching character, and two matches in a row leave an empty piece between them
  (\<open>re.split(r"[\W_]", "a!!b") == ["a", "", "b"]\<close>, \<open>re.split(r"[\W_]", "") == [""]\<close>).
\<close>

fun re_split :: "(char \<Rightarrow> bool) \<Rightarrow> string \<Rightarrow> string list" where
  "re_split p [] = [[]]"
| "re_split p (c # cs) =
     (if p c then [] # re_split p cs
      else (case re_split p cs of
              [] \<Rightarrow> [[c]]
            | seg # segs \<Rightarrow> (c # seg) # segs))"

text \<open>
  \<open>str.capitalize\<close>: the first character in upper case, the others in lower case. On
  byte strings only the ASCII letters change (in the C locale).
\<close>

definition to_upper :: "char \<Rightarrow> char" where
  "to_upper c = (if is_lower c then char_of (of_char c - (32 :: nat)) else c)"

definition to_lower :: "char \<Rightarrow> char" where
  "to_lower c = (if is_upper c then char_of (of_char c + (32 :: nat)) else c)"

fun capitalize :: "string \<Rightarrow> string" where
  "capitalize [] = []"
| "capitalize (c # cs) = to_upper c # map to_lower cs"

text \<open>
  \<^verbatim>\<open>
  def name_to_clsname(name):
      return "".join(map(str.capitalize, RE_ILLEGAL_CLASS_CHARS.split(name)))
  \<close>
\<close>

definition name_to_clsname :: "string \<Rightarrow> string" where
  "name_to_clsname name = concat (map capitalize (re_split RE_ILLEGAL_CLASS_CHARS name))"

text \<open>
  The derivation in the specification's words, for comparison with the code: the name is
  split on every \<^emph>\<open>run\<close> of characters that are not alphanumeric (underscore
  included among the separators), each segment is capitalised, and the segments are
  concatenated.
\<close>

function spec_split_runs :: "(char \<Rightarrow> bool) \<Rightarrow> string \<Rightarrow> string list" where
  "spec_split_runs p [] = [[]]"
| "spec_split_runs p (c # cs) =
     (if p c then [] # spec_split_runs p (dropWhile p cs)
      else (case spec_split_runs p cs of
              [] \<Rightarrow> [[c]]
            | seg # segs \<Rightarrow> (c # seg) # segs))"
  by pat_completeness auto
termination
  by (relation "measure (\<lambda>(p, cs). length cs)")
     (auto simp: less_Suc_eq_le length_dropWhile_le)

definition spec_clsname :: "string \<Rightarrow> string" where
  "spec_clsname name =
     concat (map capitalize (spec_split_runs RE_ILLEGAL_CLASS_CHARS name))"

subsection \<open>Python values as the registry sees them\<close>

text \<open>
  A task name is a \<open>str\<close>; the default of the \<open>name\<close> argument, and the \<open>name\<close>
  attribute of a class that sets none, is \<open>None\<close>. \<open>truthy\<close> is Python's truth value
  (\<open>not name\<close> holds for \<open>None\<close> and for the empty string) and \<open>str_of_atom\<close> is what
  \<open>"%s" % name\<close> prints.
\<close>

datatype atom = ANone | AStr string

fun truthy :: "atom \<Rightarrow> bool" where
  "truthy ANone = False"
| "truthy (AStr s) = (s \<noteq> [])"

fun str_of_atom :: "atom \<Rightarrow> string" where
  "str_of_atom ANone = ''None''"
| "str_of_atom (AStr s) = s"

text \<open>The arguments of a call, \<open>(*args, **kwargs)\<close>; \<open>no_args\<close> is the call \<open>f()\<close>.\<close>

type_synonym 'a args = "'a list \<times> (string \<times> 'a) list"

definition no_args :: "'a args" where
  "no_args = ([], [])"

text \<open>
  Exceptions. The two of this module carry their message; \<open>AttributeError\<close> carries the
  attribute that is missing, \<open>KeyError\<close> the key, and \<open>Raised\<close> is any exception of
  the code that the registry calls (a task function, a constructor).
\<close>

datatype 'x exn =
    AlreadyRegistered string
  | NotRegistered string
  | AttributeError string
  | KeyError atom
  | TypeError string
  | Raised 'x

text \<open>
  An object (a function, a class, an instance, any value) is what the registry can
  observe of it: its attributes \<open>run\<close>, \<open>name\<close> and \<open>type\<close> when it has them, what
  calling it does when it is callable (for a class: the instance it constructs), and the
  text \<open>str\<close> gives for it. Calls are functions of their arguments: they return a value
  or raise, and they do not touch the registry.
\<close>

datatype ('a, 'x) obj = Obj
  (attr_run: "('a args \<Rightarrow> 'x exn + ('a, 'x) obj) option")
  (attr_name: "atom option")
  (attr_type: "atom option")
  (obj_call: "('a args \<Rightarrow> 'x exn + ('a, 'x) obj) option")
  (obj_str: string)

text \<open>\<open>hasattr(x, "run")\<close>, \<open>getattr(x, "name")\<close> and \<open>x(*args, **kwargs)\<close>.\<close>

definition hasattr_run :: "('a, 'x) obj \<Rightarrow> bool" where
  "hasattr_run x = (attr_run x \<noteq> None)"

definition getattr_name :: "('a, 'x) obj \<Rightarrow> 'x exn + atom" where
  "getattr_name x =
     (case attr_name x of None \<Rightarrow> Inl (AttributeError ''name'') | Some n \<Rightarrow> Inr n)"

definition call :: "('a, 'x) obj \<Rightarrow> 'a args \<Rightarrow> 'x exn + ('a, 'x) obj" where
  "call f as =
     (case obj_call f of None \<Rightarrow> Inl (TypeError ''object is not callable'') | Some c \<Rightarrow> c as)"

text \<open>
  The argument of \<open>unregister\<close> is a name or an object. A \<open>str\<close> and \<open>None\<close> have no
  attribute \<open>run\<close> or \<open>name\<close>. An object that is not a name is either hashable
  (\<open>Object\<close>: a function, a class, an instance, hashed by identity) or not
  (\<open>Unhashable\<close>: a list, a dictionary, an instance of a class that sets
  \<open>__hash__ = None\<close>); testing an unhashable value for membership in a dictionary raises
  \<open>TypeError\<close>.
\<close>

datatype ('a, 'x) pyval = Name atom | Object "('a, 'x) obj" | Unhashable "('a, 'x) obj"

fun val_hasattr_run :: "('a, 'x) pyval \<Rightarrow> bool" where
  "val_hasattr_run (Name n) = False"
| "val_hasattr_run (Object x) = hasattr_run x"
| "val_hasattr_run (Unhashable x) = hasattr_run x"

fun val_name :: "('a, 'x) pyval \<Rightarrow> 'x exn + ('a, 'x) pyval" where
  "val_name (Name n) = Inl (AttributeError ''name'')"
| "val_name (Object x) = (case getattr_name x of Inl e \<Rightarrow> Inl e | Inr n \<Rightarrow> Inr (Name n))"
| "val_name (Unhashable x) =
     (case getattr_name x of Inl e \<Rightarrow> Inl e | Inr n \<Rightarrow> Inr (Name n))"

subsection \<open>Dictionaries and the store\<close>

text \<open>
  A dictionary keyed by names is an association list; \<open>d[k] = v\<close> is
  \<open>AList.update k v d\<close> and \<open>del d[k]\<close> is \<open>AList.delete k d\<close>. A dictionary holds a
  key once (\<open>distinct (map fst d)\<close>), which both keep.
\<close>

type_synonym ('a, 'x) dict = "(atom \<times> ('a, 'x) obj) list"

definition dict_contains :: "('a, 'x) dict \<Rightarrow> atom \<Rightarrow> bool" where
  "dict_contains d k = (map_of d k \<noteq> None)"

definition dict_getitem :: "('a, 'x) dict \<Rightarrow> atom \<Rightarrow> 'x exn + ('a, 'x) obj" where
  "dict_getitem d k = (case map_of d k of None \<Rightarrow> Inl (KeyError k) | Some v \<Rightarrow> Inr v)"

text \<open>
  Objects with attributes that can be assigned, and dictionaries, are shared by
  reference, so they live in a store. \<open>objects h a\<close> is the registry object at address
  \<open>a\<close>, with its attribute \<open>data\<close>, a reference to a dictionary; \<open>cells h d\<close> is the
  dictionary at address \<open>d\<close>; \<open>next_free h\<close> is the next address to allocate.
\<close>

type_synonym addr = nat

record task_registry =
  data :: addr

record ('a, 'x) heap =
  objects :: "addr \<Rightarrow> task_registry"
  cells :: "addr \<Rightarrow> ('a, 'x) dict"
  next_free :: addr

text \<open>\<open>self.data\<close>, read in the store \<open>h\<close>.\<close>

definition self_data :: "addr \<Rightarrow> ('a, 'x) heap \<Rightarrow> addr" where
  "self_data self h = data (objects h self)"

text \<open>The statements \<open>d[k] = v\<close> and \<open>del d[k]\<close> on a reference \<open>d\<close> to a dictionary.\<close>

definition store_setitem ::
  "addr \<Rightarrow> atom \<Rightarrow> ('a, 'x) obj \<Rightarrow> ('a, 'x) heap \<Rightarrow> ('a, 'x) heap" where
  "store_setitem d k v h = h\<lparr>cells := (cells h)(d := AList.update k v (cells h d))\<rparr>"

definition store_delitem ::
  "addr \<Rightarrow> atom \<Rightarrow> ('a, 'x) heap \<Rightarrow> ('x exn + unit) \<times> ('a, 'x) heap" where
  "store_delitem d k h =
     (if dict_contains (cells h d) k
      then (Inr (), h\<lparr>cells := (cells h)(d := AList.delete k (cells h d))\<rparr>)
      else (Inl (KeyError k), h))"

subsection \<open>\<open>TaskRegistry\<close>\<close>

text \<open>
  \<^verbatim>\<open>
  class TaskRegistry(UserDict):
      def __init__(self):
          self.data = {}
  \<close>
  \<open>TaskRegistry()\<close> allocates the registry object and a new, empty dictionary for its
  \<open>data\<close>, and returns the reference to the object.
\<close>

definition TaskRegistry_init :: "('a, 'x) heap \<Rightarrow> addr \<times> ('a, 'x) heap" where
  "TaskRegistry_init h =
     (let self = next_free h;
          d = Suc (next_free h)
      in (self,
          h\<lparr>objects := (objects h)(self := \<lparr>data = d\<rparr>),
            cells := (cells h)(d := []),
            next_free := Suc d\<rparr>))"

text \<open>
  \<open>Task\<close>, the base class that \<open>register\<close> imports from \<open>celery.task.base\<close>, is not
  part of this module. It is a parameter: \<open>Task clsname name type run\<close> is the class
  that \<open>type(clsname, (Task, ), {"name": name, "type": type, "run": run})\<close> builds.
\<close>

type_synonym ('a, 'x) task_base =
  "string \<Rightarrow> atom \<Rightarrow> atom \<Rightarrow> ('a args \<Rightarrow> 'x exn + ('a, 'x) obj) \<Rightarrow> ('a, 'x) obj"

text \<open>
  \<^verbatim>\<open>
  if not name:
      name = getattr(task, "name")
  \<close>
\<close>

definition resolve_name :: "('a, 'x) obj \<Rightarrow> atom \<Rightarrow> 'x exn + atom" where
  "resolve_name task name = (if \<not> truthy name then getattr_name task else Inr name)"

text \<open>
  The branch of \<open>register\<close> for a task without \<open>run\<close>:
  \<^verbatim>\<open>
  from celery.task.base import Task
  clsname = name_to_clsname(name)
  def runmethod(self, *args, **kwargs):
      return task(*args, **kwargs)
  taskcls = type(clsname, (Task, ), {"name": name,
                                     "type": "regular",
                                     "run": runmethod})()
  \<close>
  The call that ends the last statement makes \<open>taskcls\<close> an instance of the new class.
  \<open>name\<close> is \<open>None\<close> here when the task's \<open>name\<close> attribute is; the regular expression
  refuses it.
\<close>

definition synthesize ::
  "('a, 'x) task_base \<Rightarrow> ('a, 'x) obj \<Rightarrow> atom \<Rightarrow> 'x exn + ('a, 'x) obj" where
  "synthesize Task task name =
     (case name of
        ANone \<Rightarrow> Inl (TypeError ''expected string or buffer'')
      | AStr s \<Rightarrow>
          (let clsname = name_to_clsname s;
               runmethod = (\<lambda>as. call task as)
           in call (Task clsname name (AStr ''regular'') runmethod) no_args))"

text \<open>
  \<^verbatim>\<open>
  def register(self, task, name=None):
      is_class = hasattr(task, "run")
      if not name:
          name = getattr(task, "name")
      if name in self.data:
          raise self.AlreadyRegistered(
                  "Task with name %s is already registered." % name)
      if is_class:
          taskcls = task
      else:
          ...
      self.data[name] = taskcls() # instantiate Task class
  \<close>
\<close>

definition register ::
  "('a, 'x) task_base \<Rightarrow> addr \<Rightarrow> ('a, 'x) obj \<Rightarrow> atom \<Rightarrow> ('a, 'x) heap
     \<Rightarrow> ('x exn + unit) \<times> ('a, 'x) heap" where
  "register Task self task name h =
     (let is_class = hasattr_run task in
      case resolve_name task name of
        Inl e \<Rightarrow> (Inl e, h)
      | Inr name \<Rightarrow>
          if dict_contains (cells h (self_data self h)) name
          then (Inl (AlreadyRegistered
                  (''Task with name '' @ str_of_atom name @ '' is already registered.'')), h)
          else
            (case (if is_class then Inr task else synthesize Task task name) of
               Inl e \<Rightarrow> (Inl e, h)
             | Inr taskcls \<Rightarrow>
                 (case call taskcls no_args of
                    Inl e \<Rightarrow> (Inl e, h)
                  | Inr v \<Rightarrow> (Inr (), store_setitem (self_data self h) name v h))))"

text \<open>
  \<^verbatim>\<open>
  def unregister(self, name):
      if hasattr(name, "run"):
          name = name.name
      if name not in self.data:
          raise self.NotRegistered(
                  "Task with name %s is not registered." % name)
      del self.data[name]
  \<close>
  A hashable object that is not a name is hashed by its identity, so it is not among the
  keys, which are names. For an unhashable one the test \<open>name not in self.data\<close> raises
  \<open>TypeError\<close>.
\<close>

definition unregister ::
  "addr \<Rightarrow> ('a, 'x) pyval \<Rightarrow> ('a, 'x) heap \<Rightarrow> ('x exn + unit) \<times> ('a, 'x) heap" where
  "unregister self name h =
     (case (if val_hasattr_run name then val_name name else Inr name) of
        Inl e \<Rightarrow> (Inl e, h)
      | Inr (Name n) \<Rightarrow>
          if \<not> dict_contains (cells h (self_data self h)) n
          then (Inl (NotRegistered
                  (''Task with name '' @ str_of_atom n @ '' is not registered.'')), h)
          else store_delitem (self_data self h) n h
      | Inr (Object x) \<Rightarrow>
          (Inl (NotRegistered
             (''Task with name '' @ obj_str x @ '' is not registered.'')), h)
      | Inr (Unhashable x) \<Rightarrow> (Inl (TypeError ''unhashable type''), h))"

text \<open>
  \<^verbatim>\<open>
  def get_all(self):
      return self.data
  \<close>
  The result is the reference held in \<open>self.data\<close>.
\<close>

definition get_all :: "addr \<Rightarrow> ('a, 'x) heap \<Rightarrow> ('x exn + addr) \<times> ('a, 'x) heap" where
  "get_all self h = (Inr (self_data self h), h)"

text \<open>
  \<^verbatim>\<open>
  def filter_types(self, type):
      return dict((task_name, task)
                      for task_name, task in self.data.items()
                          if task.type == type)
  \<close>
  \<open>task.type\<close> raises \<open>AttributeError\<close> on a value without the attribute. The result
  is a new dictionary, which nothing else refers to: it is returned as a value.
\<close>

fun filter_items :: "atom \<Rightarrow> ('a, 'x) dict \<Rightarrow> 'x exn + ('a, 'x) dict" where
  "filter_items ty [] = Inr []"
| "filter_items ty ((task_name, task) # items) =
     (case attr_type task of
        None \<Rightarrow> Inl (AttributeError ''type'')
      | Some t \<Rightarrow>
          (case filter_items ty items of
             Inl e \<Rightarrow> Inl e
           | Inr rest \<Rightarrow> Inr (if t = ty then (task_name, task) # rest else rest)))"

definition filter_types ::
  "addr \<Rightarrow> atom \<Rightarrow> ('a, 'x) heap \<Rightarrow> ('x exn + ('a, 'x) dict) \<times> ('a, 'x) heap" where
  "filter_types self ty h = (filter_items ty (cells h (self_data self h)), h)"

definition get_all_regular ::
  "addr \<Rightarrow> ('a, 'x) heap \<Rightarrow> ('x exn + ('a, 'x) dict) \<times> ('a, 'x) heap" where
  "get_all_regular self h = filter_types self (AStr ''regular'') h"

definition get_all_periodic ::
  "addr \<Rightarrow> ('a, 'x) heap \<Rightarrow> ('x exn + ('a, 'x) dict) \<times> ('a, 'x) heap" where
  "get_all_periodic self h = filter_types self (AStr ''periodic'') h"

text \<open>
  \<^verbatim>\<open>
  def get_task(self, name):
      return self.data[name]
  \<close>
\<close>

definition get_task ::
  "addr \<Rightarrow> atom \<Rightarrow> ('a, 'x) heap \<Rightarrow> ('x exn + ('a, 'x) obj) \<times> ('a, 'x) heap" where
  "get_task self name h = (dict_getitem (cells h (self_data self h)) name, h)"

subsection \<open>Sequences of calls\<close>

text \<open>
  A caller that makes \<open>register\<close> and \<open>unregister\<close> calls one after the other, going
  on after a call that raised.
\<close>

datatype ('a, 'x) reg_call = Register "('a, 'x) obj" atom | Unregister "('a, 'x) pyval"

fun run_calls ::
  "('a, 'x) task_base \<Rightarrow> addr \<Rightarrow> ('a, 'x) reg_call list \<Rightarrow> ('a, 'x) heap \<Rightarrow> ('a, 'x) heap" where
  "run_calls Task self [] h = h"
| "run_calls Task self (Register task name # cs) h =
     run_calls Task self cs (snd (register Task self task name h))"
| "run_calls Task self (Unregister name # cs) h =
     run_calls Task self cs (snd (unregister self name h))"

subsection \<open>Example objects\<close>

text \<open>
  Two base classes to run \<open>register\<close> with. Instances of a class built on
  \<open>Task_plain\<close> have the three attributes and nothing else: they are not callable.
  \<open>Task_forwarding\<close> also defines
  \<^verbatim>\<open>
  def __call__(self, *args, **kwargs):
      return self.run(*args, **kwargs)
  \<close>
  In both, the constructor takes any arguments and \<open>run\<close>, read on the class itself, is
  an unbound method.
\<close>

definition unbound_method :: "string args \<Rightarrow> string exn + (string, string) obj" where
  "unbound_method as = Inl (TypeError ''unbound method must be called with an instance'')"

definition Task_plain :: "(string, string) task_base" where
  "Task_plain clsname name ty run =
     Obj (Some unbound_method) (Some name) (Some ty)
       (Some (\<lambda>as. Inr (Obj (Some run) (Some name) (Some ty) None
                          (''<'' @ clsname @ '' object>''))))
       (''<class '' @ clsname @ ''>'')"

definition Task_forwarding :: "(string, string) task_base" where
  "Task_forwarding clsname name ty run =
     Obj (Some unbound_method) (Some name) (Some ty)
       (Some (\<lambda>as. Inr (Obj (Some run) (Some name) (Some ty) (Some run)
                          (''<'' @ clsname @ '' object>''))))
       (''<class '' @ clsname @ ''>'')"

text \<open>
  A plain function,
  \<^verbatim>\<open>
  def send_email(*args, **kwargs):
      return "sent"
  \<close>
  and the string it returns.
\<close>

definition sent :: "(string, string) obj" where
  "sent = Obj None None None None ''sent''"

definition send_email :: "(string, string) obj" where
  "send_email = Obj None None None (Some (\<lambda>as. Inr sent)) ''<function send_email>''"

text \<open>
  Two task classes written by hand, with the instances their constructors return:
  \<^verbatim>\<open>
  class A(object):
      name = "a"
      type = "regular"
      def run(self, *args, **kwargs):
          return "sent"

  class B(object):
      name = "b"
      type = "periodic"
      def run(self, *args, **kwargs):
          return "sent"
  \<close>
\<close>

definition A_instance :: "(string, string) obj" where
  "A_instance =
     Obj (Some (\<lambda>as. Inr sent)) (Some (AStr ''a'')) (Some (AStr ''regular'')) None ''<A object>''"

definition A_class :: "(string, string) obj" where
  "A_class =
     Obj (Some unbound_method) (Some (AStr ''a'')) (Some (AStr ''regular''))
       (Some (\<lambda>as. Inr A_instance)) ''<class A>''"

definition B_instance :: "(string, string) obj" where
  "B_instance =
     Obj (Some (\<lambda>as. Inr sent)) (Some (AStr ''b'')) (Some (AStr ''periodic'')) None ''<B object>''"

definition B_class :: "(string, string) obj" where
  "B_class =
     Obj (Some unbound_method) (Some (AStr ''b'')) (Some (AStr ''periodic''))
       (Some (\<lambda>as. Inr B_instance)) ''<class B>''"

text \<open>
  A task class whose constructor raises:
  \<^verbatim>\<open>
  class Broken(object):
      name = "broken"
      type = "regular"
      def __init__(self):
          raise ValueError("no connection")
      def run(self, *args, **kwargs):
          return "sent"
  \<close>
\<close>

definition Broken_class :: "(string, string) obj" where
  "Broken_class =
     Obj (Some unbound_method) (Some (AStr ''broken'')) (Some (AStr ''regular''))
       (Some (\<lambda>as. Inl (Raised ''ValueError''))) ''<class Broken>''"

text \<open>
  A class with \<open>run\<close> and \<open>name\<close> but no \<open>type\<close>, which \<open>register\<close> accepts, since
  it only looks for \<open>run\<close>:
  \<^verbatim>\<open>
  class Untyped(object):
      name = "untyped"
      def run(self, *args, **kwargs):
          return "sent"
  \<close>
\<close>

definition Untyped_instance :: "(string, string) obj" where
  "Untyped_instance =
     Obj (Some (\<lambda>as. Inr sent)) (Some (AStr ''untyped'')) None None ''<Untyped object>''"

definition Untyped_class :: "(string, string) obj" where
  "Untyped_class =
     Obj (Some unbound_method) (Some (AStr ''untyped'')) None
       (Some (\<lambda>as. Inr Untyped_instance)) ''<class Untyped>''"

text \<open>
  The store before anything is allocated, and the module's last statement,
  \<^verbatim>\<open>tasks = TaskRegistry()\<close>, run in it: \<open>tasks\<close> is the reference to the registry
  and \<open>tasks_heap\<close> the store after the statement.
\<close>

definition empty_heap :: "(string, string) heap" where
  "empty_heap = \<lparr>objects = (\<lambda>a. \<lparr>data = 0\<rparr>), cells = (\<lambda>a. []), next_free = 0\<rparr>"

definition tasks :: addr where
  "tasks = fst (TaskRegistry_init empty_heap)"

definition tasks_heap :: "(string, string) heap" where
  "tasks_heap = snd (TaskRegistry_init empty_heap)"

text \<open>
  The store after \<open>tasks.register(A)\<close>, and after \<open>tasks.register(B)\<close> as well.
\<close>

definition heap_a :: "(string, string) heap" where
  "heap_a = snd (register Task_plain tasks A_class ANone tasks_heap)"

definition heap_ab :: "(string, string) heap" where
  "heap_ab = snd (register Task_plain tasks B_class ANone heap_a)"


section \<open>Properties\<close>

lemmas example_defs =
  tasks_def tasks_heap_def TaskRegistry_init_def empty_heap_def
  A_class_def A_instance_def B_class_def B_instance_def Broken_class_def
  Untyped_class_def Untyped_instance_def send_email_def sent_def Task_plain_def Task_forwarding_def unbound_method_def

lemmas registry_defs =
  register_def unregister_def get_task_def get_all_def filter_types_def
  get_all_regular_def get_all_periodic_def resolve_name_def synthesize_def
  call_def hasattr_run_def getattr_name_def dict_contains_def dict_getitem_def
  store_setitem_def store_delitem_def self_data_def no_args_def

subsection \<open>The derived class name\<close>

lemma re_split_nonempty: "re_split p cs \<noteq> []"
  by (induction cs) (auto split: list.splits)

lemma spec_split_runs_nonempty: "spec_split_runs p cs \<noteq> []"
  by (induction p cs rule: spec_split_runs.induct) (auto split: list.splits)

text \<open>Separators at the front add empty pieces only, which the concatenation drops.\<close>

lemma re_split_dropWhile:
  "concat (map capitalize (re_split p (dropWhile p cs))) =
   concat (map capitalize (re_split p cs))"
  by (induction cs) auto

text \<open>
  Cutting at every separator and cutting at every run of separators give the same first
  piece, and the same text once the other pieces are capitalised and joined.
\<close>

lemma split_runs_agree:
  "hd (spec_split_runs p cs) = hd (re_split p cs) \<and>
   concat (map capitalize (tl (spec_split_runs p cs))) =
   concat (map capitalize (tl (re_split p cs)))"
proof (induction p cs rule: spec_split_runs.induct)
  case (1 p)
  show ?case by simp
next
  case (2 p c cs)
  show ?case
  proof (cases "p c")
    case True
    from 2(1)[OF True]
    have "concat (map capitalize (spec_split_runs p (dropWhile p cs))) =
          concat (map capitalize (re_split p (dropWhile p cs)))"
      using spec_split_runs_nonempty[of p "dropWhile p cs"]
        re_split_nonempty[of p "dropWhile p cs"]
      by (cases "spec_split_runs p (dropWhile p cs)"; cases "re_split p (dropWhile p cs)")
         auto
    with True show ?thesis by (simp add: re_split_dropWhile)
  next
    case False
    with 2(2)[OF False] show ?thesis
      using spec_split_runs_nonempty[of p cs] re_split_nonempty[of p cs]
      by (cases "spec_split_runs p cs"; cases "re_split p cs") auto
  qed
qed

lemma clsname_agree: "name_to_clsname name = spec_clsname name"
  using split_runs_agree[of RE_ILLEGAL_CLASS_CHARS name]
    spec_split_runs_nonempty[of RE_ILLEGAL_CLASS_CHARS name]
    re_split_nonempty[of RE_ILLEGAL_CLASS_CHARS name]
  unfolding name_to_clsname_def spec_clsname_def
  by (cases "spec_split_runs RE_ILLEGAL_CLASS_CHARS name";
      cases "re_split RE_ILLEGAL_CLASS_CHARS name") auto

text \<open>
  C7. The class-style identifier that \<open>name_to_clsname\<close> computes is the one the
  specification describes: the name split on runs of characters that are not
  alphanumeric (underscore among them), each segment capitalised, the segments
  concatenated. In particular \<open>"send_email"\<close> gives \<open>"SendEmail"\<close> and
  \<open>"send-email!!2"\<close> gives \<open>"SendEmail2"\<close>.
\<close>

theorem name_to_clsname_derivation:
  "name_to_clsname name = spec_clsname name \<and>
   name_to_clsname ''send_email'' = ''SendEmail'' \<and>
   name_to_clsname ''send-email!!2'' = ''SendEmail2''"
proof (intro conjI)
  show "name_to_clsname name = spec_clsname name" by (rule clsname_agree)
  show "name_to_clsname ''send_email'' = ''SendEmail''" by code_simp
  show "name_to_clsname ''send-email!!2'' = ''SendEmail2''" by code_simp
qed

subsection \<open>The example stores, evaluated\<close>

lemma tasks_eval: "tasks = 0"
  by (simp add: example_defs Let_def)

lemma tasks_heap_eval:
  "tasks_heap =
     \<lparr>objects = (\<lambda>a. \<lparr>data = 0\<rparr>)(0 := \<lparr>data = Suc 0\<rparr>),
      cells = (\<lambda>a. [])(Suc 0 := []),
      next_free = Suc (Suc 0)\<rparr>"
  by (simp add: example_defs Let_def)

lemma heap_a_eval:
  "heap_a =
     \<lparr>objects = (\<lambda>a. \<lparr>data = 0\<rparr>)(0 := \<lparr>data = Suc 0\<rparr>),
      cells = (\<lambda>a. [])(Suc 0 := [(AStr ''a'', A_instance)]),
      next_free = Suc (Suc 0)\<rparr>"
  by (simp add: heap_a_def example_defs registry_defs Let_def)

lemma heap_ab_eval:
  "heap_ab =
     \<lparr>objects = (\<lambda>a. \<lparr>data = 0\<rparr>)(0 := \<lparr>data = Suc 0\<rparr>),
      cells = (\<lambda>a. [])(Suc 0 := [(AStr ''a'', A_instance), (AStr ''b'', B_instance)]),
      next_free = Suc (Suc 0)\<rparr>"
  by (simp add: heap_ab_def heap_a_eval tasks_eval B_class_def B_instance_def
        A_instance_def sent_def registry_defs Let_def)

subsection \<open>\<open>register\<close>\<close>

text \<open>
  C1, as the specification states it, fails on a task with a \<open>run\<close> attribute.
  Registered under \<open>"b"\<close>, the class \<open>A\<close> is stored under the key \<open>"b"\<close>, and the
  handler that \<open>get_task("b")\<close> returns still has the name \<open>"a"\<close>: \<open>register\<close> does
  not rename a handler. And the empty string, which is no key of the registry, counts as
  no name at all: \<open>register(A, "")\<close> stores the handler under \<open>A.name\<close>, where
  \<open>get_task("a")\<close> finds it, and \<open>get_task("")\<close> raises \<open>KeyError\<close>. A third input
  on which it fails is a class whose constructor raises: \<open>register\<close> raises the same
  exception.
\<close>

theorem register_name_counterexample:
  "\<not> dict_contains (cells tasks_heap (self_data tasks tasks_heap)) (AStr ''b'') \<and>
   fst (register Task_plain tasks A_class (AStr ''b'') tasks_heap) = Inr () \<and>
   fst (get_task tasks (AStr ''b'')
          (snd (register Task_plain tasks A_class (AStr ''b'') tasks_heap))) =
     Inr A_instance \<and>
   getattr_name A_instance = Inr (AStr ''a'') \<and>
   \<not> dict_contains (cells tasks_heap (self_data tasks tasks_heap)) (AStr []) \<and>
   fst (register Task_plain tasks A_class (AStr []) tasks_heap) = Inr () \<and>
   fst (get_task tasks (AStr [])
          (snd (register Task_plain tasks A_class (AStr []) tasks_heap))) =
     Inl (KeyError (AStr [])) \<and>
   cells (snd (register Task_plain tasks A_class (AStr []) tasks_heap))
     (self_data tasks tasks_heap) = [(AStr ''a'', A_instance)] \<and>
   \<not> dict_contains (cells tasks_heap (self_data tasks tasks_heap)) (AStr ''broken'') \<and>
   register Task_plain tasks Broken_class (AStr ''broken'') tasks_heap =
     (Inl (Raised ''ValueError''), tasks_heap)"
  by (simp add: example_defs registry_defs Let_def)

text \<open>
  C1, amended. Take a task with a \<open>run\<close> attribute whose call \<open>task()\<close> returns an
  instance, and a \<open>name\<close> argument. The key \<open>k\<close> is the argument when that is a
  non-empty string, and the task's \<open>name\<close> attribute when the argument is empty or
  \<open>None\<close>. If \<open>k\<close> is not in the registry, \<open>register(task, name)\<close> succeeds, adds the
  entry from \<open>k\<close> to that instance and changes no other entry, and \<open>get_task(k)\<close> then
  returns the instance. The name of the handler returned is the instance's own: it is
  \<open>k\<close> exactly when the instance's name is \<open>k\<close>.
\<close>

theorem register_native_then_get_task:
  assumes "(truthy name \<and> k = name) \<or> (\<not> truthy name \<and> attr_name task = Some k)"
    and "\<not> dict_contains (cells h (self_data self h)) k"
    and "hasattr_run task"
    and "call task no_args = Inr inst"
  shows "fst (register Task self task name h) = Inr () \<and>
         map_of (cells (snd (register Task self task name h))
                   (self_data self (snd (register Task self task name h)))) =
           (map_of (cells h (self_data self h)))(k \<mapsto> inst) \<and>
         get_task self k (snd (register Task self task name h)) =
           (Inr inst, snd (register Task self task name h)) \<and>
         ((\<exists>v. fst (get_task self k (snd (register Task self task name h))) = Inr v \<and>
               getattr_name v = Inr k) \<longleftrightarrow> attr_name inst = Some k)"
proof -
  from assms(1) have key: "resolve_name task name = Inr k"
    by (auto simp: resolve_name_def getattr_name_def)
  let ?h' = "snd (register Task self task name h)"
  from key assms(2-4)
  have reg: "register Task self task name h =
      (Inr (), store_setitem (self_data self h) k inst h)"
    by (simp add: register_def)
  have ok: "fst (register Task self task name h) = Inr ()"
    by (simp add: reg)
  have upd: "map_of (cells ?h' (self_data self ?h')) =
      (map_of (cells h (self_data self h)))(k \<mapsto> inst)"
    by (simp add: reg store_setitem_def self_data_def update_conv')
  have get: "get_task self k ?h' = (Inr inst, ?h')"
    by (simp add: get_task_def dict_getitem_def upd)
  have nm: "(\<exists>v. fst (get_task self k ?h') = Inr v \<and> getattr_name v = Inr k) \<longleftrightarrow>
      attr_name inst = Some k"
    by (auto simp: get getattr_name_def split: option.splits)
  from ok upd get nm show ?thesis by blast
qed

theorem register_native_then_get_task_witness:
  "truthy (AStr ''b'') \<and>
   \<not> dict_contains (cells heap_a (self_data tasks heap_a)) (AStr ''b'') \<and>
   hasattr_run B_class \<and> call B_class no_args = Inr B_instance \<and>
   fst (register Task_plain tasks B_class (AStr ''b'') heap_a) = Inr () \<and>
   get_task tasks (AStr ''b'') (snd (register Task_plain tasks B_class (AStr ''b'') heap_a)) =
     (Inr B_instance, snd (register Task_plain tasks B_class (AStr ''b'') heap_a)) \<and>
   attr_name B_instance = Some (AStr ''b'') \<and>
   \<not> truthy (AStr []) \<and> attr_name A_class = Some (AStr ''a'') \<and>
   \<not> dict_contains (cells tasks_heap (self_data tasks tasks_heap)) (AStr ''a'') \<and>
   hasattr_run A_class \<and> call A_class no_args = Inr A_instance \<and>
   fst (register Task_plain tasks A_class (AStr []) tasks_heap) = Inr () \<and>
   get_task tasks (AStr ''a'') (snd (register Task_plain tasks A_class (AStr []) tasks_heap)) =
     (Inr A_instance, snd (register Task_plain tasks A_class (AStr []) tasks_heap))"
proof -
  have 1: "truthy (AStr ''b'')" by simp
  have 2: "\<not> dict_contains (cells heap_a (self_data tasks heap_a)) (AStr ''b'')"
    by (simp add: heap_a_eval tasks_eval dict_contains_def self_data_def)
  have 3: "hasattr_run B_class" by (simp add: hasattr_run_def B_class_def)
  have 4: "call B_class no_args = Inr B_instance" by (simp add: call_def B_class_def)
  have 5: "attr_name B_instance = Some (AStr ''b'')" by (simp add: B_instance_def)
  have 6: "\<not> truthy (AStr [])" by simp
  have 7: "attr_name A_class = Some (AStr ''a'')" by (simp add: A_class_def)
  have 8: "\<not> dict_contains (cells tasks_heap (self_data tasks tasks_heap)) (AStr ''a'')"
    by (simp add: tasks_heap_eval tasks_eval dict_contains_def self_data_def)
  have 9: "hasattr_run A_class" by (simp add: hasattr_run_def A_class_def)
  have 10: "call A_class no_args = Inr A_instance" by (simp add: call_def A_class_def)
  have b: "(truthy (AStr ''b'') \<and> AStr ''b'' = AStr ''b'') \<or>
           (\<not> truthy (AStr ''b'') \<and> attr_name B_class = Some (AStr ''b''))"
    using 1 by simp
  have a: "(truthy (AStr []) \<and> AStr ''a'' = AStr []) \<or>
           (\<not> truthy (AStr []) \<and> attr_name A_class = Some (AStr ''a''))"
    using 6 7 by simp
  note wb = register_native_then_get_task[OF b 2 3 4, of Task_plain]
  note wa = register_native_then_get_task[OF a 8 9 10, of Task_plain]
  from wb have 11: "fst (register Task_plain tasks B_class (AStr ''b'') heap_a) = Inr ()"
    and 12: "get_task tasks (AStr ''b'')
        (snd (register Task_plain tasks B_class (AStr ''b'') heap_a)) =
      (Inr B_instance, snd (register Task_plain tasks B_class (AStr ''b'') heap_a))"
    by blast+
  from wa have 13: "fst (register Task_plain tasks A_class (AStr []) tasks_heap) = Inr ()"
    and 14: "get_task tasks (AStr ''a'')
        (snd (register Task_plain tasks A_class (AStr []) tasks_heap)) =
      (Inr A_instance, snd (register Task_plain tasks A_class (AStr []) tasks_heap))"
    by blast+
  from 1 2 3 4 5 6 7 8 9 10 11 12 13 14 show ?thesis by blast
qed

text \<open>
  C2. When the name that \<open>register\<close> resolves (the \<open>name\<close> argument, or the task's
  \<open>name\<close> attribute when the argument is empty) is a key of the registry, \<open>register\<close>
  raises \<open>AlreadyRegistered\<close> with the name in its message and leaves the store as it
  was. So after a \<open>register\<close> that succeeded, every \<open>register\<close> that resolves the same
  name fails this way.
\<close>

theorem register_already_registered:
  assumes "resolve_name task name = Inr n"
  shows "(dict_contains (cells h (self_data self h)) n \<longrightarrow>
            register Task self task name h =
              (Inl (AlreadyRegistered
                 (''Task with name '' @ str_of_atom n @ '' is already registered.'')), h)) \<and>
         (fst (register Task self task name h) = Inr () \<longrightarrow>
            (\<forall>task' name'. resolve_name task' name' = Inr n \<longrightarrow>
               register Task self task' name' (snd (register Task self task name h)) =
                 (Inl (AlreadyRegistered
                    (''Task with name '' @ str_of_atom n @ '' is already registered.'')),
                  snd (register Task self task name h))))"
proof -
  let ?h' = "snd (register Task self task name h)"
  let ?err = "Inl (AlreadyRegistered
     (''Task with name '' @ str_of_atom n @ '' is already registered.''))"
  have first: "dict_contains (cells h (self_data self h)) n \<longrightarrow>
      register Task self task name h = (?err, h)"
    using assms by (simp add: register_def)
  have second: "register Task self task' name' ?h' = (?err, ?h')"
    if ok: "fst (register Task self task name h) = Inr ()"
      and res: "resolve_name task' name' = Inr n" for task' name'
  proof -
    from ok assms have "dict_contains (cells ?h' (self_data self ?h')) n"
      by (auto simp: register_def Let_def store_setitem_def self_data_def dict_contains_def
            update_conv' split: if_splits sum.splits)
    with res show ?thesis by (simp add: register_def)
  qed
  from first second show ?thesis by blast
qed

theorem register_already_registered_witness:
  "resolve_name A_class ANone = Inr (AStr ''a'') \<and>
   fst (register Task_forwarding tasks A_class ANone tasks_heap) = Inr () \<and>
   resolve_name send_email (AStr ''a'') = Inr (AStr ''a'') \<and>
   register Task_forwarding tasks send_email (AStr ''a'')
       (snd (register Task_forwarding tasks A_class ANone tasks_heap)) =
     (Inl (AlreadyRegistered ''Task with name a is already registered.''),
      snd (register Task_forwarding tasks A_class ANone tasks_heap)) \<and>
   dict_contains (cells heap_ab (self_data tasks heap_ab)) (AStr ''a'') \<and>
   register Task_plain tasks A_class ANone heap_ab =
     (Inl (AlreadyRegistered ''Task with name a is already registered.''), heap_ab)"
proof -
  have 1: "resolve_name A_class ANone = Inr (AStr ''a'')"
    by (simp add: resolve_name_def getattr_name_def A_class_def)
  have 2: "fst (register Task_forwarding tasks A_class ANone tasks_heap) = Inr ()"
    by (simp add: tasks_eval tasks_heap_eval A_class_def registry_defs Let_def)
  have 3: "resolve_name send_email (AStr ''a'') = Inr (AStr ''a'')"
    by (simp add: resolve_name_def)
  have 4: "dict_contains (cells heap_ab (self_data tasks heap_ab)) (AStr ''a'')"
    by (simp add: heap_ab_eval tasks_eval dict_contains_def self_data_def)
  from register_already_registered[OF 1, of tasks_heap tasks Task_forwarding] 2 3
  have 5: "register Task_forwarding tasks send_email (AStr ''a'')
       (snd (register Task_forwarding tasks A_class ANone tasks_heap)) =
     (Inl (AlreadyRegistered ''Task with name a is already registered.''),
      snd (register Task_forwarding tasks A_class ANone tasks_heap))"
    by simp
  from register_already_registered[OF 1, of heap_ab tasks Task_plain] 4
  have 6: "register Task_plain tasks A_class ANone heap_ab =
     (Inl (AlreadyRegistered ''Task with name a is already registered.''), heap_ab)"
    by simp
  from 1 2 3 4 5 6 show ?thesis by blast
qed

text \<open>
  C9. When \<open>register\<close> is called with no name (\<open>None\<close>, or the empty string) and the
  task has no \<open>name\<close> attribute, it raises the \<open>AttributeError\<close> of the missing
  attribute and leaves the store as it was.
\<close>

theorem register_undefined_name:
  "\<not> truthy name \<Longrightarrow> attr_name task = None \<Longrightarrow>
   register Task self task name h = (Inl (AttributeError ''name''), h)"
  by (simp add: register_def resolve_name_def getattr_name_def)

theorem register_undefined_name_witness:
  "\<not> truthy ANone \<and> attr_name send_email = None \<and>
   register Task_forwarding tasks send_email ANone tasks_heap =
     (Inl (AttributeError ''name''), tasks_heap) \<and>
   \<not> truthy (AStr []) \<and>
   register Task_plain tasks send_email (AStr []) heap_a =
     (Inl (AttributeError ''name''), heap_a)"
proof -
  have 1: "\<not> truthy ANone" and 2: "\<not> truthy (AStr [])" by simp_all
  have 3: "attr_name send_email = None" by (simp add: send_email_def)
  from register_undefined_name[OF 1 3, of Task_forwarding tasks tasks_heap]
    register_undefined_name[OF 2 3, of Task_plain tasks heap_a] 1 2 3
  show ?thesis by blast
qed

subsection \<open>\<open>register\<close> on a plain callable\<close>

text \<open>
  For a task without \<open>run\<close>, \<open>taskcls\<close> is already an instance of the class that
  \<open>register\<close> builds, and the last statement of \<open>register\<close> calls it once more. Whatever
  the base class, the value stored is what that second call returns.
\<close>

lemma register_plain_callable_stores_call_result:
  assumes "\<not> hasattr_run task"
    and "fst (register Task self task name h) = Inr ()"
  shows "\<exists>n inst v. resolve_name task name = Inr n \<and>
           synthesize Task task n = Inr inst \<and> call inst no_args = Inr v \<and>
           get_task self n (snd (register Task self task name h)) =
             (Inr v, snd (register Task self task name h))"
  using assms
  by (auto simp: register_def Let_def get_task_def store_setitem_def self_data_def
        dict_getitem_def update_conv' split: sum.splits if_splits)

text \<open>
  C3 does not hold of the code. \<open>register(send_email, "send_email")\<close> on the empty
  registry, with a base class whose instances forward a call to \<open>run\<close>, stores the
  string that \<open>send_email()\<close> returns: a value with no \<open>type\<close> and no \<open>run\<close>. With a
  base class whose instances are not callable, the same call raises \<open>TypeError\<close>.
\<close>

theorem register_plain_callable_handler:
  "\<not> hasattr_run send_email \<and>
   fst (register Task_forwarding tasks send_email (AStr ''send_email'') tasks_heap) = Inr () \<and>
   fst (get_task tasks (AStr ''send_email'')
          (snd (register Task_forwarding tasks send_email (AStr ''send_email'') tasks_heap))) =
     Inr sent \<and>
   call send_email no_args = Inr sent \<and>
   attr_type sent = None \<and> attr_run sent = None \<and>
   fst (register Task_plain tasks send_email (AStr ''send_email'') tasks_heap) =
     Inl (TypeError ''object is not callable'')"
  by (simp add: example_defs registry_defs Let_def)

text \<open>
  C4 does not hold of the code on the same input. The handler that \<open>register\<close>
  builds for \<open>send_email\<close> is an instance with the name, the type \<open>"regular"\<close> and the
  forwarding \<open>run\<close>, but the value stored under \<open>"send_email"\<close> is not that instance:
  it is the string the instance returns when called. For the class \<open>A\<close>, which has a
  \<open>run\<close> attribute, the value stored is the instance \<open>A()\<close>.
\<close>

theorem register_plain_callable_stored_value:
  "synthesize Task_forwarding send_email (AStr ''send_email'') =
     Inr (Obj (Some (\<lambda>as. call send_email as)) (Some (AStr ''send_email''))
            (Some (AStr ''regular'')) (Some (\<lambda>as. call send_email as))
            ''<SendEmail object>'') \<and>
   cells (snd (register Task_forwarding tasks send_email (AStr ''send_email'') tasks_heap))
     (self_data tasks tasks_heap) = [(AStr ''send_email'', sent)] \<and>
   sent = Obj None None None None ''sent'' \<and>
   cells (snd (register Task_forwarding tasks A_class (AStr ''send_email'') tasks_heap))
     (self_data tasks tasks_heap) = [(AStr ''send_email'', A_instance)] \<and>
   call A_class no_args = Inr A_instance"
proof -
  have n: "name_to_clsname ''send_email'' = ''SendEmail''" by code_simp
  show ?thesis
    by (simp add: n example_defs registry_defs Let_def fun_eq_iff)
qed

subsection \<open>\<open>unregister\<close> and \<open>get_task\<close>\<close>

text \<open>
  C5. The key that \<open>unregister\<close> uses is its argument when that is a name, and the
  argument's \<open>name\<close> attribute when the argument has a \<open>run\<close> attribute. When the key is
  not in the registry, \<open>unregister\<close> raises \<open>NotRegistered\<close> with the name in its
  message and leaves the store as it was; when it is, \<open>unregister\<close> removes that entry
  and no other.
\<close>

theorem unregister_resolves_and_removes:
  assumes "name = Name n \<or>
     (\<exists>x. (name = Object x \<or> name = Unhashable x) \<and> hasattr_run x \<and>
        attr_name x = Some n)"
  shows "(\<not> dict_contains (cells h (self_data self h)) n \<longrightarrow>
            unregister self name h =
              (Inl (NotRegistered
                 (''Task with name '' @ str_of_atom n @ '' is not registered.'')), h)) \<and>
         (dict_contains (cells h (self_data self h)) n \<longrightarrow>
            fst (unregister self name h) = Inr () \<and>
            map_of (cells (snd (unregister self name h))
                      (self_data self (snd (unregister self name h)))) =
              (map_of (cells h (self_data self h)))(n := None))"
  using assms
  by (auto simp: unregister_def getattr_name_def store_delitem_def self_data_def delete_conv')

theorem unregister_resolves_and_removes_witness:
  "hasattr_run A_class \<and> attr_name A_class = Some (AStr ''a'') \<and>
   dict_contains (cells heap_ab (self_data tasks heap_ab)) (AStr ''a'') \<and>
   fst (unregister tasks (Object A_class) heap_ab) = Inr () \<and>
   cells (snd (unregister tasks (Object A_class) heap_ab))
     (self_data tasks (snd (unregister tasks (Object A_class) heap_ab))) =
     [(AStr ''b'', B_instance)] \<and>
   \<not> dict_contains (cells heap_a (self_data tasks heap_a)) (AStr ''b'') \<and>
   unregister tasks (Name (AStr ''b'')) heap_a =
     (Inl (NotRegistered ''Task with name b is not registered.''), heap_a)"
proof -
  have 1: "hasattr_run A_class \<and> attr_name A_class = Some (AStr ''a'')"
    by (simp add: hasattr_run_def A_class_def)
  have 2: "dict_contains (cells heap_ab (self_data tasks heap_ab)) (AStr ''a'')"
    by (simp add: heap_ab_eval tasks_eval dict_contains_def self_data_def)
  have 3: "\<not> dict_contains (cells heap_a (self_data tasks heap_a)) (AStr ''b'')"
    by (simp add: heap_a_eval tasks_eval dict_contains_def self_data_def)
  have 4: "cells (snd (unregister tasks (Object A_class) heap_ab))
     (self_data tasks (snd (unregister tasks (Object A_class) heap_ab))) =
     [(AStr ''b'', B_instance)]"
    by (simp add: heap_ab_eval tasks_eval A_class_def registry_defs)
  from unregister_resolves_and_removes[of "Object A_class" "AStr ''a''" heap_ab tasks]
    unregister_resolves_and_removes[of "Name (AStr ''b'')" "AStr ''b''" heap_a tasks]
    1 2 3 4
  show ?thesis by simp
qed

text \<open>
  C6. For a name that is not in the registry, and so for a name that \<open>unregister\<close> has
  just removed, \<open>get_task\<close> raises the \<open>KeyError\<close> of that key instead of returning a
  value, and the store is as it was.
\<close>

theorem get_task_absent:
  "(\<not> dict_contains (cells h (self_data self h)) n \<longrightarrow>
      get_task self n h = (Inl (KeyError n), h)) \<and>
   (fst (unregister self (Name n) h) = Inr () \<longrightarrow>
      get_task self n (snd (unregister self (Name n) h)) =
        (Inl (KeyError n), snd (unregister self (Name n) h)))"
  by (auto simp: get_task_def dict_getitem_def dict_contains_def unregister_def
        store_delitem_def self_data_def delete_conv' split: if_splits)

theorem get_task_absent_witness:
  "\<not> dict_contains (cells heap_a (self_data tasks heap_a)) (AStr ''b'') \<and>
   get_task tasks (AStr ''b'') heap_a = (Inl (KeyError (AStr ''b'')), heap_a) \<and>
   fst (unregister tasks (Name (AStr ''a'')) heap_a) = Inr () \<and>
   get_task tasks (AStr ''a'') (snd (unregister tasks (Name (AStr ''a'')) heap_a)) =
     (Inl (KeyError (AStr ''a'')), snd (unregister tasks (Name (AStr ''a'')) heap_a))"
proof -
  have 1: "\<not> dict_contains (cells heap_a (self_data tasks heap_a)) (AStr ''b'')"
    by (simp add: heap_a_eval tasks_eval dict_contains_def self_data_def)
  have 2: "fst (unregister tasks (Name (AStr ''a'')) heap_a) = Inr ()"
    by (simp add: heap_a_eval tasks_eval registry_defs)
  from get_task_absent[of heap_a tasks "AStr ''b''"]
    get_task_absent[of heap_a tasks "AStr ''a''"] 1 2
  show ?thesis by simp
qed

subsection \<open>\<open>filter_types\<close>\<close>





text \<open>
  A dictionary of the store holds each key once: the constructor starts from the empty
  dictionary, and \<open>register\<close> and \<open>unregister\<close> keep the property.
\<close>

lemma TaskRegistry_init_empty:
  "cells (snd (TaskRegistry_init h))
     (self_data (fst (TaskRegistry_init h)) (snd (TaskRegistry_init h))) = []"
  by (simp add: TaskRegistry_init_def self_data_def Let_def)

lemma register_keeps_distinct:
  "distinct (map fst (cells h a)) \<Longrightarrow>
   distinct (map fst (cells (snd (register Task self task name h)) a))"
  by (auto simp: register_def store_setitem_def Let_def distinct_update split: sum.splits)

lemma unregister_keeps_distinct:
  "distinct (map fst (cells h a)) \<Longrightarrow>
   distinct (map fst (cells (snd (unregister self name h)) a))"
  by (auto simp: unregister_def store_delitem_def distinct_delete
        split: sum.splits pyval.splits)

lemma run_calls_keeps_distinct:
  "distinct (map fst (cells h a)) \<Longrightarrow>
   distinct (map fst (cells (run_calls Task self cs h) a))"
proof (induction cs arbitrary: h)
  case Nil
  then show ?case by simp
next
  case (Cons c cs)
  then show ?case
    by (cases c) (simp_all add: register_keeps_distinct unregister_keeps_distinct)
qed





subsection \<open>\<open>get_all\<close>\<close>

text \<open>
  \<open>register\<close> and \<open>unregister\<close> update the dictionary that \<open>self.data\<close> refers to and
  never assign \<open>self.data\<close>, so a registry keeps the dictionary it was created with.
\<close>

lemma register_keeps_objects:
  "objects (snd (register Task self task name h)) = objects h"
  by (simp add: register_def store_setitem_def Let_def split: sum.splits)

lemma unregister_keeps_objects:
  "objects (snd (unregister self name h)) = objects h"
  by (simp add: unregister_def store_delitem_def split: sum.splits pyval.splits)

lemma run_calls_keeps_objects:
  "objects (run_calls Task self cs h) = objects h"
proof (induction cs arbitrary: h)
  case Nil
  show ?case by simp
next
  case (Cons c cs)
  show ?case
    by (cases c) (simp_all add: Cons.IH register_keeps_objects unregister_keeps_objects)
qed

lemma run_calls_self_data:
  "self_data self (run_calls Task self cs h) = self_data self h"
  by (simp add: self_data_def run_calls_keeps_objects)

text \<open>
  C10. \<open>get_all()\<close> returns the reference in \<open>self.data\<close> and allocates nothing: its
  result is the registry's own dictionary. After any sequence of \<open>register\<close> and
  \<open>unregister\<close> calls the registry still uses that dictionary, so \<open>get_task\<close> finds
  exactly what a lookup through the reference returned earlier finds; and an entry set
  or deleted through the reference is set or deleted for \<open>get_task\<close>.
\<close>

theorem get_all_live_store:
  assumes "fst (get_all self h) = Inr r"
  shows "snd (get_all self h) = h \<and> r = self_data self h \<and>
         (\<forall>cs. fst (get_all self (run_calls Task self cs h)) = Inr r) \<and>
         (\<forall>cs k. fst (get_task self k (run_calls Task self cs h)) =
                    dict_getitem (cells (run_calls Task self cs h) r) k) \<and>
         (\<forall>k v. fst (get_task self k (store_setitem r k v h)) = Inr v) \<and>
         (\<forall>k. fst (get_task self k (snd (store_delitem r k h))) = Inl (KeyError k))"
proof -
  from assms have r: "r = self_data self h" by (simp add: get_all_def)
  have a: "fst (get_all self (run_calls Task self cs h)) = Inr r" for cs
    by (simp add: get_all_def r run_calls_self_data)
  have b: "fst (get_task self k (run_calls Task self cs h)) =
             dict_getitem (cells (run_calls Task self cs h) r) k" for cs k
    by (simp add: get_task_def r run_calls_self_data)
  have c: "fst (get_task self k (store_setitem r k v h)) = Inr v" for k v
    by (simp add: get_task_def r store_setitem_def self_data_def dict_getitem_def update_conv')
  have d: "fst (get_task self k (snd (store_delitem r k h))) = Inl (KeyError k)" for k
    by (simp add: get_task_def r store_delitem_def self_data_def dict_getitem_def
          dict_contains_def delete_conv')
  from r a b c d show ?thesis by (simp add: get_all_def)
qed

theorem get_all_live_store_witness:
  "fst (get_all tasks tasks_heap) = Inr (Suc 0) \<and>
   cells tasks_heap (Suc 0) = [] \<and>
   cells (run_calls Task_plain tasks [Register A_class ANone, Register B_class ANone,
            Unregister (Name (AStr ''a''))] tasks_heap) (Suc 0) = [(AStr ''b'', B_instance)] \<and>
   fst (get_task tasks (AStr ''b'')
          (run_calls Task_plain tasks [Register A_class ANone, Register B_class ANone,
             Unregister (Name (AStr ''a''))] tasks_heap)) = Inr B_instance \<and>
   fst (get_task tasks (AStr ''x'') (store_setitem (Suc 0) (AStr ''x'') sent tasks_heap)) =
     Inr sent"
proof -
  let ?cs = "[Register A_class ANone, Register B_class ANone,
              Unregister (Name (AStr ''a''))]"
  have 1: "fst (get_all tasks tasks_heap) = Inr (Suc 0)"
    by (simp add: get_all_def self_data_def tasks_eval tasks_heap_eval)
  have 2: "cells tasks_heap (Suc 0) = []" by (simp add: tasks_heap_eval)
  have 3: "cells (run_calls Task_plain tasks ?cs tasks_heap) (Suc 0) =
             [(AStr ''b'', B_instance)]"
    by (simp add: tasks_eval tasks_heap_eval A_class_def B_class_def A_instance_def
          B_instance_def sent_def registry_defs Let_def)
  note live = get_all_live_store[OF 1, of Task_plain]
  from live
  have "fst (get_task tasks (AStr ''b'') (run_calls Task_plain tasks ?cs tasks_heap)) =
      dict_getitem (cells (run_calls Task_plain tasks ?cs tasks_heap) (Suc 0)) (AStr ''b'')"
    by blast
  then have 4: "fst (get_task tasks (AStr ''b'')
      (run_calls Task_plain tasks ?cs tasks_heap)) = Inr B_instance"
    by (simp only: 3) (simp add: dict_getitem_def)
  from live have 5: "fst (get_task tasks (AStr ''x'')
      (store_setitem (Suc 0) (AStr ''x'') sent tasks_heap)) = Inr sent"
    by blast
  from 1 2 3 4 5 show ?thesis by blast
qed

end
